theory Spec2Isabelle
  imports Main "HOL-Library.Word"
begin

section \<open>Credential and fraud-risk engine of the SmartBank server\<close>

text \<open>
  A shallow embedding of \<^verbatim>\<open>server/utils/crypto.js\<close>, \<^verbatim>\<open>server/models/User.js\<close>,
  \<^verbatim>\<open>server/models/LoginAttempt.js\<close>, \<^verbatim>\<open>server/middleware/fraudDetector.js\<close> and the
  handlers of \<^verbatim>\<open>server/routes/auth.js\<close>.  Strings are byte lists, instants are
  milliseconds since the epoch (\<open>int\<close>), and what the handlers take from outside the
  repository (the clock, the random salt, the SHA-512 compression function, the RSA
  private-key operation, whether the ledger store answers a query and takes an insert)
  is a field of the environment record \<open>env\<close>.
\<close>

subsection \<open>Environment\<close>

datatype error = RangeError | DecryptionFailed | StorageError | ValidationError

type_synonym instant = int

record env =
  now :: instant                            \<comment> \<open>\<^verbatim>\<open>Date.now()\<close>, one reading per request\<close>
  tzOffsetMinutes :: int                    \<comment> \<open>local time minus UTC at \<open>now\<close>\<close>
  sha512 :: "string \<Rightarrow> 512 word"             \<comment> \<open>\<^verbatim>\<open>crypto.createHash('sha512')\<close>\<close>
  privateDecrypt :: "string \<Rightarrow> string option" \<comment> \<open>\<^verbatim>\<open>crypto.privateDecrypt\<close> on the base64 payload\<close>
  randomSalt :: string                      \<comment> \<open>\<^verbatim>\<open>crypto.randomBytes(32).toString('hex')\<close>\<close>
  freshId :: string                         \<comment> \<open>the \<^verbatim>\<open>_id\<close> the store gives a new document\<close>
  ledgerReadFails :: bool                   \<comment> \<open>\<^verbatim>\<open>LoginAttempt.find\<close> rejects\<close>
  ledgerWriteFails :: bool                  \<comment> \<open>the store refuses the insert of \<^verbatim>\<open>LoginAttempt.create\<close>\<close>

subsection \<open>Hex digests and buffers (\<^verbatim>\<open>utils/crypto.js\<close>)\<close>

type_synonym byte = "8 word"

definition hexDigit :: "nat \<Rightarrow> char" where
  "hexDigit n = ''0123456789abcdef'' ! (n mod 16)"

definition hexVal :: "char \<Rightarrow> nat option" where
  "hexVal c = map_of
     [(CHR ''0'', 0), (CHR ''1'', 1), (CHR ''2'', 2), (CHR ''3'', 3), (CHR ''4'', 4),
      (CHR ''5'', 5), (CHR ''6'', 6), (CHR ''7'', 7), (CHR ''8'', 8), (CHR ''9'', 9),
      (CHR ''a'', 10), (CHR ''b'', 11), (CHR ''c'', 12), (CHR ''d'', 13), (CHR ''e'', 14),
      (CHR ''f'', 15), (CHR ''A'', 10), (CHR ''B'', 11), (CHR ''C'', 12), (CHR ''D'', 13),
      (CHR ''E'', 14), (CHR ''F'', 15)] c"

text \<open>The 64 bytes of a 512-bit digest, most significant first.\<close>

definition digestBytes :: "512 word \<Rightarrow> byte list" where
  "digestBytes w = map (\<lambda>i. ucast (drop_bit (8 * (63 - i)) w)) [0..<64]"

text \<open>\<^verbatim>\<open>.digest('hex')\<close>: two lower-case hex digits per byte.\<close>

definition hexEncode :: "byte list \<Rightarrow> string" where
  "hexEncode bs = concat (map (\<lambda>b. [hexDigit (unat b div 16), hexDigit (unat b mod 16)]) bs)"

text \<open>
  \<^verbatim>\<open>Buffer.from(s, 'hex')\<close>: decodes pairs of hex digits and stops at the first pair
  that is not hexadecimal; a trailing single character is dropped.
\<close>

fun bufferFromHex :: "string \<Rightarrow> byte list" where
  "bufferFromHex (a # b # rest) =
     (case (hexVal a, hexVal b) of
        (Some x, Some y) \<Rightarrow> of_nat (16 * x + y) # bufferFromHex rest
      | _ \<Rightarrow> [])"
| "bufferFromHex _ = []"

text \<open>
  \<^verbatim>\<open>crypto.timingSafeEqual(a, b)\<close>: throws a RangeError when the byte lengths differ,
  otherwise reports whether the buffers are equal.
\<close>

definition timingSafeEqual :: "byte list \<Rightarrow> byte list \<Rightarrow> error + bool" where
  "timingSafeEqual a b = (if length a \<noteq> length b then Inl RangeError else Inr (a = b))"

definition sha512Hash :: "env \<Rightarrow> string \<Rightarrow> string \<Rightarrow> string" where
  "sha512Hash e mpin salt = hexEncode (digestBytes (sha512 e (salt @ mpin)))"

definition verifyMpin :: "env \<Rightarrow> string \<Rightarrow> string \<Rightarrow> string \<Rightarrow> error + bool" where
  "verifyMpin e inputMpin storedHash salt =
     (let inputHash = sha512Hash e inputMpin salt
      in timingSafeEqual (bufferFromHex inputHash) (bufferFromHex storedHash))"

definition rsaDecrypt :: "env \<Rightarrow> string \<Rightarrow> error + string" where
  "rsaDecrypt e encryptedData =
     (case privateDecrypt e encryptedData of
        Some plain \<Rightarrow> Inr plain
      | None \<Rightarrow> Inl DecryptionFailed)"

definition generateSalt :: "env \<Rightarrow> string" where
  "generateSalt e = randomSalt e"

subsection \<open>Identity records (\<^verbatim>\<open>models/User.js\<close>)\<close>

record device =
  d_fingerprint :: string
  d_userAgent :: string
  d_lastUsed :: instant
  d_trusted :: bool

record user =
  u_id :: string
  phone :: string
  name :: string
  mpinHash :: string
  mpinSalt :: string
  devices :: "device list"
  failedAttempts :: nat
  lockedUntil :: "instant option"
  createdAt :: instant
  lastLogin :: "instant option"
  u_version :: nat

definition isLocked :: "env \<Rightarrow> user \<Rightarrow> bool" where
  "isLocked e u = (case lockedUntil u of None \<Rightarrow> False | Some t \<Rightarrow> now e < t)"

text \<open>
  The two methods below mutate the document and end with \<^verbatim>\<open>await this.save()\<close>; here
  they return the mutated document and the handler writes it back with \<open>save\<close>.
\<close>

definition incrementFailedAttempts :: "env \<Rightarrow> user \<Rightarrow> user" where
  "incrementFailedAttempts e u =
     (let u1 = u\<lparr>failedAttempts := failedAttempts u + 1\<rparr>
      in if failedAttempts u1 \<ge> 5
         then u1\<lparr>lockedUntil := Some (now e + 30 * 60 * 1000), failedAttempts := 0\<rparr>
         else u1)"

definition resetFailedAttempts :: "env \<Rightarrow> user \<Rightarrow> user" where
  "resetFailedAttempts e u =
     u\<lparr>failedAttempts := 0, lockedUntil := None, lastLogin := Some (now e)\<rparr>"

datatype json = JNull | JBool bool | JNum int | JStr string
  | JArr "json list" | JObj "(string \<times> json) list"

type_synonym jsonObject = "(string \<times> json) list"

definition jsonDate :: "instant option \<Rightarrow> json" where
  "jsonDate d = (case d of None \<Rightarrow> JNull | Some t \<Rightarrow> JNum t)"

definition deviceObject :: "device \<Rightarrow> json" where
  "deviceObject d = JObj
     [(''fingerprint'', JStr (d_fingerprint d)), (''userAgent'', JStr (d_userAgent d)),
      (''lastUsed'', JNum (d_lastUsed d)), (''trusted'', JBool (d_trusted d))]"

definition toObject :: "user \<Rightarrow> jsonObject" where
  "toObject u =
     [(''_id'', JStr (u_id u)), (''phone'', JStr (phone u)), (''name'', JStr (name u)),
      (''mpinHash'', JStr (mpinHash u)), (''mpinSalt'', JStr (mpinSalt u)),
      (''devices'', JArr (map deviceObject (devices u))),
      (''failedAttempts'', JNum (int (failedAttempts u))),
      (''lockedUntil'', jsonDate (lockedUntil u)), (''createdAt'', JNum (createdAt u)),
      (''lastLogin'', jsonDate (lastLogin u)), (''__v'', JNum (int (u_version u)))]"

definition deleteField :: "string \<Rightarrow> jsonObject \<Rightarrow> jsonObject" where
  "deleteField k obj = filter (\<lambda>kv. fst kv \<noteq> k) obj"

definition toJSON :: "user \<Rightarrow> jsonObject" where
  "toJSON u =
     (let user0 = toObject u;
          user1 = deleteField ''mpinHash'' user0;
          user2 = deleteField ''mpinSalt'' user1;
          user3 = deleteField ''__v'' user2
      in user3)"

subsection \<open>Attempt ledger (\<^verbatim>\<open>models/LoginAttempt.js\<close>)\<close>

datatype reason =
  Success | Wrong_mpin | Account_locked | Fraud_detected | Otp_failed | Invalid_data

record loginAttempt =
  a_phone :: string
  a_ip :: string
  a_fingerprint :: string
  a_userAgent :: string
  a_success :: bool
  a_reason :: reason
  a_riskScore :: int
  a_timestamp :: instant

text \<open>
  The schema's validators: \<open>phone\<close> and \<open>ip\<close> are required strings, which an empty
  string does not satisfy, and \<open>riskScore\<close> lies between 0 and 100.  The reason is one
  of the enumerated values by its type.
\<close>

definition LoginAttempt_valid :: "loginAttempt \<Rightarrow> bool" where
  "LoginAttempt_valid a =
     (a_phone a \<noteq> [] \<and> a_ip a \<noteq> [] \<and> 0 \<le> a_riskScore a \<and> a_riskScore a \<le> 100)"

text \<open>
  \<^verbatim>\<open>LoginAttempt.create\<close>: rejects a document that fails validation or that the store
  refuses, and otherwise appends it.
\<close>

definition LoginAttempt_create ::
  "env \<Rightarrow> loginAttempt \<Rightarrow> loginAttempt list \<Rightarrow> error + loginAttempt list" where
  "LoginAttempt_create e a L =
     (if \<not> LoginAttempt_valid a then Inl ValidationError
      else if ledgerWriteFails e then Inl StorageError
      else Inr (L @ [a]))"

text \<open>
  The query of \<open>calculateRiskScore\<close>: the attempts of one phone number in the trailing
  30 days, most recent first, at most 50 of them.
\<close>

definition LoginAttempt_find ::
  "env \<Rightarrow> loginAttempt list \<Rightarrow> string \<Rightarrow> error + loginAttempt list" where
  "LoginAttempt_find e L ph =
     (if ledgerReadFails e then Inl StorageError
      else Inr (take 50 (sort_key (\<lambda>a. - a_timestamp a)
             (filter (\<lambda>a. a_phone a = ph
                        \<and> a_timestamp a \<ge> now e - 30 * 24 * 60 * 60 * 1000) L))))"

subsection \<open>Risk scorer (\<^verbatim>\<open>middleware/fraudDetector.js\<close>)\<close>

datatype flag = First_login | New_ip | New_device | Rapid_attempts
  | High_failure_rate | Unusual_hour | Detection_error

datatype action = Allow | Warn | Block

record riskAssessment =
  score :: int
  flags :: "flag list"
  action :: action

text \<open>\<^verbatim>\<open>new Date().getHours()\<close>: the hour of day in local time.\<close>

definition getHours :: "env \<Rightarrow> int" where
  "getHours e = ((now e + tzOffsetMinutes e * 60 * 1000) div (60 * 60 * 1000)) mod 24"

text \<open>One guarded \<^verbatim>\<open>flags.push(f); score += pts\<close>.\<close>

definition flagIf :: "bool \<Rightarrow> flag \<Rightarrow> int \<Rightarrow> flag list \<times> int \<Rightarrow> flag list \<times> int" where
  "flagIf c f pts acc = (if c then (fst acc @ [f], snd acc + pts) else acc)"

text \<open>
  \<open>failRatio > 0.5\<close> is a comparison of a quotient of two counts of at most 50 with one
  half; it holds exactly when twice the failures exceed the total.
\<close>

definition calculateRiskScore ::
  "env \<Rightarrow> loginAttempt list \<Rightarrow> string \<Rightarrow> string \<Rightarrow> string \<Rightarrow> riskAssessment" where
  "calculateRiskScore e L ph currentIp fingerprint =
     (case LoginAttempt_find e L ph of
        Inl err \<Rightarrow> \<lparr>score = 10, flags = [Detection_error], action = Allow\<rparr>
      | Inr recentAttempts \<Rightarrow>
          (let acc1 =
                 (if length recentAttempts = 0 then flagIf True First_login 5 ([], 0)
                  else
                    (let knownIps = remdups (map a_ip (filter a_success recentAttempts));
                         acc_ip = flagIf (length knownIps > 0 \<and> currentIp \<notin> set knownIps)
                                    New_ip 20 ([], 0);
                         knownFingerprints =
                           remdups (map a_fingerprint (filter a_success recentAttempts));
                         acc_dev = flagIf (length knownFingerprints > 0
                                            \<and> fingerprint \<notin> set knownFingerprints)
                                     New_device 25 acc_ip;
                         fiveMinAgo = now e - 5 * 60 * 1000;
                         rapidAttempts =
                           filter (\<lambda>a. a_timestamp a \<ge> fiveMinAgo) recentAttempts;
                         acc_rapid = flagIf (length rapidAttempts > 3) Rapid_attempts 30 acc_dev;
                         recentFails = length (filter (\<lambda>a. \<not> a_success a) recentAttempts);
                         acc_fail = flagIf (2 * recentFails > max (length recentAttempts) 1)
                                      High_failure_rate 15 acc_rapid
                     in acc_fail));
               hour = getHours e;
               acc2 = flagIf (hour \<ge> 2 \<and> hour \<le> 5) Unusual_hour 10 acc1;
               total = snd acc2;
               act = (if total > 60 then Block else if total > 30 then Warn else Allow)
           in \<lparr>score = min total 100, flags = fst acc2, action = act\<rparr>))"

text \<open>JavaScript's \<^verbatim>\<open>x || d\<close> on an optional string and on an optional number.\<close>

definition orElse :: "string option \<Rightarrow> string \<Rightarrow> string" where
  "orElse x d = (case x of None \<Rightarrow> d | Some v \<Rightarrow> if v = [] then d else v)"

definition orElseNum :: "int option \<Rightarrow> int \<Rightarrow> int" where
  "orElseNum x d = (case x of None \<Rightarrow> d | Some v \<Rightarrow> if v = 0 then d else v)"

record attemptData =
  l_phone :: string
  l_ip :: string
  l_fingerprint :: "string option"
  l_userAgent :: "string option"
  l_success :: bool
  l_reason :: "reason option"
  l_riskScore :: "int option"

text \<open>
  The document \<open>logLoginAttempt\<close> builds from its argument; the timestamp is the
  schema's default.
\<close>

definition attemptDocument :: "env \<Rightarrow> attemptData \<Rightarrow> loginAttempt" where
  "attemptDocument e d =
     \<lparr>a_phone = l_phone d, a_ip = l_ip d,
      a_fingerprint = orElse (l_fingerprint d) ''unknown'',
      a_userAgent = orElse (l_userAgent d) [],
      a_success = l_success d,
      a_reason = (case l_reason d of None \<Rightarrow> Success | Some r \<Rightarrow> r),
      a_riskScore = orElseNum (l_riskScore d) 0,
      a_timestamp = now e\<rparr>"

text \<open>
  \<open>logLoginAttempt\<close> hands the document to \<^verbatim>\<open>LoginAttempt.create\<close>.  When the insert
  is rejected, the \<^verbatim>\<open>catch\<close> branch writes to the console and returns normally: the
  ledger is unchanged and the caller does not learn of it.
\<close>

definition logLoginAttempt :: "env \<Rightarrow> attemptData \<Rightarrow> loginAttempt list \<Rightarrow> loginAttempt list" where
  "logLoginAttempt e d L =
     (case LoginAttempt_create e (attemptDocument e d) L of
        Inr L' \<Rightarrow> L'
      | Inl err \<Rightarrow> L)"

subsection \<open>Requests, responses and server state (\<^verbatim>\<open>routes/auth.js\<close>)\<close>

text \<open>
  The body fields are optional strings (a missing field is \<open>None\<close>).  The state is the
  identity store keyed by phone number, the attempt ledger in insertion order, and the
  sequence of calls a handler has made to the risk scorer, the decryptor and the hash
  verifier.
\<close>

record request =
  body_phone :: "string option"
  body_encryptedMpin :: "string option"
  body_fingerprint :: "string option"
  body_firebaseToken :: "string option"
  body_demoMode :: bool
  req_ip :: string
  header_userAgent :: "string option"

datatype call = RiskScorer | Decryptor | HashVerifier

record state =
  users :: "string \<rightharpoonup> user"
  ledger :: "loginAttempt list"
  calls :: "call list"

record token =
  t_userId :: string
  t_phone :: string
  t_iat :: int
  t_expiresInSeconds :: int

datatype response =
    MissingFields                                 \<comment> \<open>400, phone and encrypted MPIN are required\<close>
  | PhoneRequired                                 \<comment> \<open>400, verify-otp\<close>
  | InvalidPhoneFormat                            \<comment> \<open>400, verify-otp\<close>
  | FirebaseTokenRequired                         \<comment> \<open>400, verify-otp\<close>
  | OtpVerified bool string                       \<comment> \<open>200, \<open>isNewUser\<close> and the phone\<close>
  | AlreadyRegistered                             \<comment> \<open>409\<close>
  | InvalidEncryptedData                          \<comment> \<open>400\<close>
  | InvalidPinFormat                              \<comment> \<open>400\<close>
  | Registered token jsonObject                   \<comment> \<open>201, token and user\<close>
  | UserNotFound                                  \<comment> \<open>404\<close>
  | AccountLocked "instant option"                \<comment> \<open>423, \<open>lockedUntil\<close>\<close>
  | RiskBlocked "flag list"                       \<comment> \<open>403, \<open>riskFlags\<close>\<close>
  | WrongCredential int                           \<comment> \<open>401, \<open>attemptsRemaining\<close>\<close>
  | LoginOk token jsonObject int "flag list"      \<comment> \<open>200, token, user, risk score and flags\<close>
  | ServerError                                   \<comment> \<open>500, the handler's outer \<^verbatim>\<open>catch\<close>\<close>

definition falsy :: "string option \<Rightarrow> bool" where
  "falsy x = (case x of None \<Rightarrow> True | Some v \<Rightarrow> v = [])"

definition str :: "string option \<Rightarrow> string" where
  "str x = (case x of None \<Rightarrow> [] | Some v \<Rightarrow> v)"

definition isDigit :: "char \<Rightarrow> bool" where
  "isDigit c = (c \<in> set ''0123456789'')"

text \<open>\<^verbatim>\<open>phone.replace(/\D/g, '')\<close>\<close>

definition sanitize :: "string \<Rightarrow> string" where
  "sanitize p = filter isDigit p"

text \<open>\<^verbatim>\<open>/^\d{4}$|^\d{6}$/.test(rawMpin)\<close>\<close>

definition validMpinFormat :: "string \<Rightarrow> bool" where
  "validMpinFormat m = ((length m = 4 \<or> length m = 6) \<and> list_all isDigit m)"

definition generateToken :: "env \<Rightarrow> string \<Rightarrow> string \<Rightarrow> token" where
  "generateToken e userId ph =
     \<lparr>t_userId = userId, t_phone = ph, t_iat = now e div 1000, t_expiresInSeconds = 15 * 60\<rparr>"

definition save :: "user \<Rightarrow> state \<Rightarrow> state" where
  "save u s = s\<lparr>users := (users s)(phone u \<mapsto> u)\<rparr>"

definition called :: "call \<Rightarrow> state \<Rightarrow> state" where
  "called c s = s\<lparr>calls := calls s @ [c]\<rparr>"

definition logged :: "env \<Rightarrow> attemptData \<Rightarrow> state \<Rightarrow> state" where
  "logged e d s = s\<lparr>ledger := logLoginAttempt e d (ledger s)\<rparr>"

text \<open>
  \<^verbatim>\<open>User.create\<close> with the schema's validators: the phone matches \<^verbatim>\<open>/^\d{10,15}$/\<close>, the
  hash has exactly 128 characters, the salt is present, and the phone is unique.  The
  other fields take the schema's defaults.
\<close>

definition User_create ::
  "env \<Rightarrow> string \<Rightarrow> string \<Rightarrow> string \<Rightarrow> device list \<Rightarrow> state \<Rightarrow> error + user \<times> state" where
  "User_create e ph hash salt devs s =
     (if \<not> (list_all isDigit ph \<and> 10 \<le> length ph \<and> length ph \<le> 15)
         \<or> length hash \<noteq> 128 \<or> salt = [] then Inl ValidationError
      else if users s ph \<noteq> None then Inl StorageError
      else
        (let newUser = \<lparr>u_id = freshId e, phone = ph, name = ''SmartBank User'',
                        mpinHash = hash, mpinSalt = salt, devices = devs,
                        failedAttempts = 0, lockedUntil = None, createdAt = now e,
                        lastLogin = None, u_version = 0\<rparr>
         in Inr (newUser, save newUser s)))"

subsubsection \<open>POST /api/auth/verify-otp\<close>

definition verifyOtp :: "env \<Rightarrow> request \<Rightarrow> state \<Rightarrow> response \<times> state" where
  "verifyOtp e req s =
     (if falsy (body_phone req) then (PhoneRequired, s)
      else
        (let sanitizedPhone = sanitize (str (body_phone req))
         in if length sanitizedPhone < 10 \<or> length sanitizedPhone > 15
            then (InvalidPhoneFormat, s)
            else if \<not> body_demoMode req \<and> falsy (body_firebaseToken req)
            then (FirebaseTokenRequired, s)
            else (OtpVerified (users s sanitizedPhone = None) sanitizedPhone, s)))"

subsubsection \<open>POST /api/auth/register\<close>

definition register :: "env \<Rightarrow> request \<Rightarrow> state \<Rightarrow> response \<times> state" where
  "register e req s =
     (if falsy (body_phone req) \<or> falsy (body_encryptedMpin req) then (MissingFields, s)
      else
        (let sanitizedPhone = sanitize (str (body_phone req))
         in case users s sanitizedPhone of
              Some existingUser \<Rightarrow> (AlreadyRegistered, s)
            | None \<Rightarrow>
               (let s1 = called Decryptor s
                in case rsaDecrypt e (str (body_encryptedMpin req)) of
                     Inl err \<Rightarrow> (InvalidEncryptedData, s1)
                   | Inr rawMpin \<Rightarrow>
                      if \<not> validMpinFormat rawMpin then (InvalidPinFormat, s1)
                      else
                        (let salt = generateSalt e;
                             hash = sha512Hash e rawMpin salt;
                             devs = (if falsy (body_fingerprint req) then []
                                     else [\<lparr>d_fingerprint = str (body_fingerprint req),
                                            d_userAgent = orElse (header_userAgent req) [],
                                            d_lastUsed = now e, d_trusted = True\<rparr>])
                         in case User_create e sanitizedPhone hash salt devs s1 of
                              Inl err \<Rightarrow> (ServerError, s1)
                            | Inr (newUser, s2) \<Rightarrow>
                               (let tok = generateToken e (u_id newUser) sanitizedPhone;
                                    s3 = logged e
                                           \<lparr>l_phone = sanitizedPhone, l_ip = req_ip req,
                                            l_fingerprint =
                                              Some (orElse (body_fingerprint req) ''unknown''),
                                            l_userAgent =
                                              Some (orElse (header_userAgent req) []),
                                            l_success = True, l_reason = Some Success,
                                            l_riskScore = Some 0\<rparr> s2
                                in (Registered tok (toJSON newUser), s3))))))"

subsubsection \<open>POST /api/auth/login\<close>

fun touchDevice :: "instant \<Rightarrow> string \<Rightarrow> device list \<Rightarrow> device list" where
  "touchDevice t fp [] = []"
| "touchDevice t fp (d # ds) =
     (if d_fingerprint d = fp then d\<lparr>d_lastUsed := t\<rparr> # ds else d # touchDevice t fp ds)"

text \<open>Step 4 of the handler: add the device when it is new, else refresh its \<open>lastUsed\<close>.\<close>

definition bindDevice :: "env \<Rightarrow> request \<Rightarrow> user \<Rightarrow> user" where
  "bindDevice e req u =
     (if falsy (body_fingerprint req) then u
      else
        (let fingerprint = str (body_fingerprint req)
         in case find (\<lambda>d. d_fingerprint d = fingerprint) (devices u) of
              None \<Rightarrow> u\<lparr>devices := devices u @
                         [\<lparr>d_fingerprint = fingerprint,
                           d_userAgent = orElse (header_userAgent req) [],
                           d_lastUsed = now e, d_trusted = True\<rparr>]\<rparr>
            | Some knownDevice \<Rightarrow>
                u\<lparr>devices := touchDevice (now e) fingerprint (devices u)\<rparr>))"

definition login :: "env \<Rightarrow> request \<Rightarrow> state \<Rightarrow> response \<times> state" where
  "login e req s =
     (if falsy (body_phone req) \<or> falsy (body_encryptedMpin req) then (MissingFields, s)
      else
        (let sanitizedPhone = sanitize (str (body_phone req));
             fp = orElse (body_fingerprint req) ''unknown''
         in case users s sanitizedPhone of
              None \<Rightarrow> (UserNotFound, s)
            | Some u \<Rightarrow>
               if isLocked e u then
                 (AccountLocked (lockedUntil u),
                  logged e \<lparr>l_phone = sanitizedPhone, l_ip = req_ip req,
                            l_fingerprint = Some fp, l_userAgent = None,
                            l_success = False, l_reason = Some Account_locked,
                            l_riskScore = None\<rparr> s)
               else
                 (let s1 = called RiskScorer s;
                      riskAssessment =
                        calculateRiskScore e (ledger s) sanitizedPhone (req_ip req) fp
                  in if action riskAssessment = Block then
                       (RiskBlocked (flags riskAssessment),
                        logged e \<lparr>l_phone = sanitizedPhone, l_ip = req_ip req,
                                  l_fingerprint = Some fp, l_userAgent = None,
                                  l_success = False, l_reason = Some Fraud_detected,
                                  l_riskScore = Some (score riskAssessment)\<rparr> s1)
                     else
                       (let s2 = called Decryptor s1
                        in case rsaDecrypt e (str (body_encryptedMpin req)) of
                             Inl err \<Rightarrow> (InvalidEncryptedData, s2)
                           | Inr rawMpin \<Rightarrow>
                              (let s3 = called HashVerifier s2
                               in case verifyMpin e rawMpin (mpinHash u) (mpinSalt u) of
                                    Inl err \<Rightarrow> (ServerError, s3)
                                  | Inr isValid \<Rightarrow>
                                     if \<not> isValid then
                                       (let u1 = incrementFailedAttempts e u;
                                            s4 = save u1 s3;
                                            remaining = 5 - int (failedAttempts u1);
                                            s5 = logged e
                                              \<lparr>l_phone = sanitizedPhone, l_ip = req_ip req,
                                               l_fingerprint = Some fp, l_userAgent = None,
                                               l_success = False, l_reason = Some Wrong_mpin,
                                               l_riskScore = Some (score riskAssessment)\<rparr> s4
                                        in (WrongCredential remaining, s5))
                                     else
                                       (let u1 = resetFailedAttempts e u;
                                            u2 = bindDevice e req u1;
                                            s4 = save u2 s3;
                                            tok = generateToken e (u_id u2) sanitizedPhone;
                                            s5 = logged e
                                              \<lparr>l_phone = sanitizedPhone, l_ip = req_ip req,
                                               l_fingerprint = Some fp, l_userAgent = None,
                                               l_success = True, l_reason = Some Success,
                                               l_riskScore = Some (score riskAssessment)\<rparr> s4
                                        in (LoginOk tok (toJSON u2) (score riskAssessment)
                                              (flags riskAssessment), s5)))))))"

subsection \<open>A concrete environment and store\<close>

text \<open>
  A small instance on which the handlers can be evaluated: a toy digest (the bytes of
  the message read as one number), a decryptor that accepts payloads of the form
  \<open>rsa:<pin>\<close>, and a store holding one identity whose PIN is 1234.
\<close>

definition demoSha :: "string \<Rightarrow> 512 word" where
  "demoSha m = of_nat (foldl (\<lambda>acc c. acc * 256 + of_char c) 0 m)"

definition demoEnv :: env where
  "demoEnv = \<lparr>now = 1700000000000, tzOffsetMinutes = 330, sha512 = demoSha,
     privateDecrypt = (\<lambda>c. if take 4 c = ''rsa:'' then Some (drop 4 c) else None),
     randomSalt = ''5a17'', freshId = ''id2'', ledgerReadFails = False,
     ledgerWriteFails = False\<rparr>"

definition demoUser :: user where
  "demoUser = \<lparr>u_id = ''id1'', phone = ''9876543210'', name = ''SmartBank User'',
     mpinHash = sha512Hash demoEnv ''1234'' ''c0de'', mpinSalt = ''c0de'', devices = [],
     failedAttempts = 4, lockedUntil = None, createdAt = 1690000000000,
     lastLogin = None, u_version = 0\<rparr>"

definition demoState :: state where
  "demoState = \<lparr>users = [''9876543210'' \<mapsto> demoUser], ledger = [], calls = []\<rparr>"

definition demoLockedState :: state where
  "demoLockedState =
     demoState\<lparr>users := [''9876543210'' \<mapsto> demoUser\<lparr>lockedUntil := Some 1700000600000\<rparr>]\<rparr>"

definition demoRequest :: "string \<Rightarrow> string \<Rightarrow> request" where
  "demoRequest ph payload =
     \<lparr>body_phone = Some ph, body_encryptedMpin = Some payload,
      body_fingerprint = Some ''fp-1'', body_firebaseToken = None, body_demoMode = True,
      req_ip = ''10.0.0.7'', header_userAgent = Some ''Mozilla''\<rparr>"

section \<open>Properties\<close>

lemma length_digestBytes: "length (digestBytes w) = 64"
  by (simp add: digestBytes_def)

lemma length_hexEncode: "length (hexEncode bs) = 2 * length bs"
  by (induction bs) (simp_all add: hexEncode_def)

lemma length_sha512Hash: "length (sha512Hash e mpin salt) = 128"
  by (simp add: sha512Hash_def length_hexEncode length_digestBytes)

text \<open>
  Claim C8.  For every PIN string and every salt string, verifying the PIN against the
  digest that \<open>sha512Hash\<close> derives from the same PIN and salt (the hex form of the
  512-bit digest of \<open>salt @ pin\<close>) returns true.
\<close>

theorem verifyMpin_sha512Hash:
  "verifyMpin e pin (sha512Hash e pin salt) salt = Inr True
   \<and> sha512Hash e pin salt = hexEncode (digestBytes (sha512 e (salt @ pin)))
   \<and> length (sha512Hash e pin salt) * 4 = 512"
  by (simp add: verifyMpin_def timingSafeEqual_def Let_def length_sha512Hash)
    (simp add: sha512Hash_def)

subsection \<open>Hex digests\<close>

lemma hexVal_hexDigit: "n < 16 \<Longrightarrow> hexVal (hexDigit n) = Some n"
proof -
  assume "n < 16"
  then have "n \<in> set [0..<16]" by simp
  then show ?thesis
    unfolding hexDigit_def hexVal_def
    by (simp add: upt_rec) (elim disjE; simp)
qed

lemma bufferFromHex_hexEncode: "bufferFromHex (hexEncode bs) = bs"
proof (induction bs)
  case Nil
  then show ?case by (simp add: hexEncode_def)
next
  case (Cons b bs)
  have hi: "unat b div 16 < 16"
    using unsigned_less [of b, where ?'a = nat] by simp
  have lo: "unat b mod 16 < 16" by simp
  have "(of_nat (16 * (unat b div 16) + unat b mod 16) :: byte) = b"
    by simp
  with Cons hi lo show ?case
    by (simp add: hexEncode_def hexVal_hexDigit del: of_nat_add of_nat_mult)
qed

lemma digestBytes_inj:
  assumes "digestBytes w = digestBytes w'"
  shows "w = w'"
proof (rule bit_word_eqI)
  fix n assume n: "n < LENGTH(512)"
  define i where "i = 63 - n div 8"
  have i: "i < 64" "8 * (63 - i) = 8 * (n div 8)" using n by (simp_all add: i_def)
  from assms have "digestBytes w ! i = digestBytes w' ! i" by simp
  with i have eq: "(ucast (drop_bit (8 * (n div 8)) w) :: byte)
                     = ucast (drop_bit (8 * (n div 8)) w')"
    by (simp add: digestBytes_def)
  have "bit (ucast (drop_bit (8 * (n div 8)) v) :: byte) (n mod 8) = bit v n"
    for v :: "512 word"
    by (simp add: bit_ucast_iff bit_drop_bit_eq)
  with eq show "bit w n = bit w' n" by metis
qed

text \<open>
  Against a digest that \<open>sha512Hash\<close> produced, verification never throws and answers
  whether the two 512-bit digests agree.
\<close>

lemma verifyMpin_stored:
  "verifyMpin e pin (sha512Hash e pin' salt) salt
     = Inr (sha512 e (salt @ pin) = sha512 e (salt @ pin'))"
proof -
  have "length (bufferFromHex (sha512Hash e p salt)) = 64" for p
    by (simp add: sha512Hash_def bufferFromHex_hexEncode length_digestBytes)
  then show ?thesis
    by (auto simp: verifyMpin_def timingSafeEqual_def sha512Hash_def
        bufferFromHex_hexEncode dest: digestBytes_inj)
qed

subsection \<open>Lockout state machine\<close>

text \<open>
  Claim C3.  When a failed verification brings the failure counter to the threshold of
  5, the same update resets the counter to 0 and sets the lock expiry to now plus 30
  minutes.  Below the threshold the counter is incremented and the expiry is left alone,
  so the counter is reset by this update only together with the new expiry, and the
  expiry is changed only together with the reset.
\<close>

theorem incrementFailedAttempts_locks_atomically:
  "(failedAttempts u + 1 \<ge> 5 \<longrightarrow>
      failedAttempts (incrementFailedAttempts e u) = 0
      \<and> lockedUntil (incrementFailedAttempts e u) = Some (now e + 30 * 60 * 1000))
   \<and> (failedAttempts u + 1 < 5 \<longrightarrow>
      failedAttempts (incrementFailedAttempts e u) = failedAttempts u + 1
      \<and> lockedUntil (incrementFailedAttempts e u) = lockedUntil u)
   \<and> (failedAttempts (incrementFailedAttempts e u) = 0 \<longrightarrow>
      lockedUntil (incrementFailedAttempts e u) = Some (now e + 30 * 60 * 1000))
   \<and> (lockedUntil (incrementFailedAttempts e u) \<noteq> lockedUntil u \<longrightarrow>
      failedAttempts (incrementFailedAttempts e u) = 0
      \<and> lockedUntil (incrementFailedAttempts e u) = Some (now e + 30 * 60 * 1000))"
  by (simp add: incrementFailedAttempts_def Let_def)

theorem incrementFailedAttempts_locks_atomically_witness:
  "failedAttempts demoUser + 1 \<ge> 5
   \<and> failedAttempts (incrementFailedAttempts demoEnv demoUser) = 0
   \<and> lockedUntil (incrementFailedAttempts demoEnv demoUser) = Some 1700001800000
   \<and> lockedUntil (incrementFailedAttempts demoEnv demoUser) \<noteq> lockedUntil demoUser
   \<and> failedAttempts (demoUser\<lparr>failedAttempts := 2\<rparr>) + 1 < 5
   \<and> failedAttempts (incrementFailedAttempts demoEnv (demoUser\<lparr>failedAttempts := 2\<rparr>)) = 3
   \<and> lockedUntil (incrementFailedAttempts demoEnv (demoUser\<lparr>failedAttempts := 2\<rparr>)) = None"
proof -
  have a: "failedAttempts demoUser + 1 \<ge> 5" by (simp add: demoUser_def)
  have b: "failedAttempts (demoUser\<lparr>failedAttempts := 2\<rparr>) + 1 < 5" by simp
  have n: "now demoEnv + 30 * 60 * 1000 = 1700001800000" by (simp add: demoEnv_def)
  have l: "lockedUntil demoUser = None" by (simp add: demoUser_def)
  have l2: "lockedUntil (demoUser\<lparr>failedAttempts := 2\<rparr>) = None" by (simp add: demoUser_def)
  from incrementFailedAttempts_locks_atomically [of demoUser demoEnv] a n
  have c: "failedAttempts (incrementFailedAttempts demoEnv demoUser) = 0
      \<and> lockedUntil (incrementFailedAttempts demoEnv demoUser) = Some 1700001800000"
    by presburger
  from incrementFailedAttempts_locks_atomically [of "demoUser\<lparr>failedAttempts := 2\<rparr>" demoEnv] b l2
  have d: "failedAttempts (incrementFailedAttempts demoEnv (demoUser\<lparr>failedAttempts := 2\<rparr>)) = 3
     \<and> lockedUntil (incrementFailedAttempts demoEnv (demoUser\<lparr>failedAttempts := 2\<rparr>)) = None"
    by simp
  from a b c d l show ?thesis by simp
qed

subsection \<open>Risk scorer\<close>

lemma LoginAttempt_find_no_history:
  assumes "\<not> ledgerReadFails e" and "\<forall>a \<in> set L. a_phone a \<noteq> ph"
  shows "LoginAttempt_find e L ph = Inr []"
proof -
  from assms(2) have "filter (\<lambda>a. a_phone a = ph
      \<and> a_timestamp a \<ge> now e - 30 * 24 * 60 * 60 * 1000) L = []"
    by (simp add: filter_empty_conv)
  with assms(1) show ?thesis by (simp add: LoginAttempt_find_def)
qed

text \<open>
  Claim C6.  When the query for the identity's recent attempts returns no attempt, the
  scorer flags \<open>first_login\<close>, scores 5, adds \<open>unusual_hour\<close> and 10 more exactly when
  the local hour of day is between 2 and 5 inclusive, and the action is Allow.
\<close>

theorem calculateRiskScore_empty_history:
  assumes "LoginAttempt_find e L ph = Inr []"
  shows "calculateRiskScore e L ph ip fp =
           \<lparr>score = 5 + (if 2 \<le> getHours e \<and> getHours e \<le> 5 then 10 else 0),
            flags = First_login # (if 2 \<le> getHours e \<and> getHours e \<le> 5
                                   then [Unusual_hour] else []),
            action = Allow\<rparr>"
  using assms by (simp add: calculateRiskScore_def flagIf_def Let_def)

theorem calculateRiskScore_empty_history_witness:
  "LoginAttempt_find demoEnv [] ''9876543210'' = Inr []
   \<and> calculateRiskScore demoEnv [] ''9876543210'' ''10.0.0.7'' ''fp-1''
       = \<lparr>score = 15, flags = [First_login, Unusual_hour], action = Allow\<rparr>
   \<and> LoginAttempt_find (demoEnv\<lparr>tzOffsetMinutes := 0\<rparr>) [] ''9876543210'' = Inr []
   \<and> calculateRiskScore (demoEnv\<lparr>tzOffsetMinutes := 0\<rparr>) [] ''9876543210'' ''10.0.0.7'' ''fp-1''
       = \<lparr>score = 5, flags = [First_login], action = Allow\<rparr>"
proof -
  have f1: "LoginAttempt_find demoEnv [] ''9876543210'' = Inr []"
    by (simp add: LoginAttempt_find_def demoEnv_def)
  have f2: "LoginAttempt_find (demoEnv\<lparr>tzOffsetMinutes := 0\<rparr>) [] ''9876543210'' = Inr []"
    by (simp add: LoginAttempt_find_def demoEnv_def)
  have h1: "getHours demoEnv = 3" by (simp add: getHours_def demoEnv_def)
  have h2: "getHours (demoEnv\<lparr>tzOffsetMinutes := 0\<rparr>) = 22"
    by (simp add: getHours_def demoEnv_def)
  show ?thesis
    using calculateRiskScore_empty_history [OF f1, of "''10.0.0.7''" "''fp-1''"]
      calculateRiskScore_empty_history [OF f2, of "''10.0.0.7''" "''fp-1''"] f1 f2
    by (simp add: h1 h2)
qed

subsection \<open>The login handler\<close>

lemma orElse_again: "d \<noteq> [] \<Longrightarrow> orElse (Some (orElse x d)) d = orElse x d"
  by (simp add: orElse_def split: option.splits)

lemma calculateRiskScore_read_failure:
  "ledgerReadFails e \<Longrightarrow>
     calculateRiskScore e L ph ip fp = \<lparr>score = 10, flags = [Detection_error], action = Allow\<rparr>"
  by (simp add: calculateRiskScore_def LoginAttempt_find_def)

lemma logLoginAttempt_accepted:
  assumes "l_phone d \<noteq> []" and "l_ip d \<noteq> []"
    and "0 \<le> orElseNum (l_riskScore d) 0" and "orElseNum (l_riskScore d) 0 \<le> 100"
    and "\<not> ledgerWriteFails e"
  shows "logLoginAttempt e d L = L @ [attemptDocument e d]"
  using assms
  by (simp add: logLoginAttempt_def LoginAttempt_create_def LoginAttempt_valid_def
      attemptDocument_def)

lemma logLoginAttempt_rejected:
  assumes "l_phone d = [] \<or> l_ip d = [] \<or> ledgerWriteFails e"
  shows "logLoginAttempt e d L = L"
  using assms
  by (auto simp: logLoginAttempt_def LoginAttempt_create_def LoginAttempt_valid_def
      attemptDocument_def)

lemma logLoginAttempt_at_most_one:
  "logLoginAttempt e d L = L \<or> logLoginAttempt e d L = L @ [attemptDocument e d]"
  by (simp add: logLoginAttempt_def LoginAttempt_create_def)

lemma flagIf_nonneg: "0 \<le> pts \<Longrightarrow> 0 \<le> snd acc \<Longrightarrow> 0 \<le> snd (flagIf c f pts acc)"
  by (simp add: flagIf_def)

lemma calculateRiskScore_range:
  "0 \<le> score (calculateRiskScore e L ph ip fp) \<and> score (calculateRiskScore e L ph ip fp) \<le> 100"
  by (simp add: calculateRiskScore_def Let_def flagIf_nonneg split: sum.splits)

text \<open>
  What the handler does once the PIN has been decrypted and the comparison ran, and at
  the risk gate.  Each of these verdicts calls \<open>logLoginAttempt\<close> once.
\<close>

lemma login_wrong_mpin:
  assumes "\<not> falsy (body_phone req)" and "\<not> falsy (body_encryptedMpin req)"
    and "users s (sanitize (str (body_phone req))) = Some u"
    and "\<not> isLocked e u"
    and "action (calculateRiskScore e (ledger s) (sanitize (str (body_phone req)))
           (req_ip req) (orElse (body_fingerprint req) ''unknown'')) \<noteq> Block"
    and "rsaDecrypt e (str (body_encryptedMpin req)) = Inr rawMpin"
    and "verifyMpin e rawMpin (mpinHash u) (mpinSalt u) = Inr False"
  shows "fst (login e req s)
           = WrongCredential (5 - int (failedAttempts (incrementFailedAttempts e u)))"
    and "users (snd (login e req s)) = (users s)(phone u \<mapsto> incrementFailedAttempts e u)"
    and "calls (snd (login e req s)) = calls s @ [RiskScorer, Decryptor, HashVerifier]"
    and "ledger (snd (login e req s)) =
           logLoginAttempt e
             \<lparr>l_phone = sanitize (str (body_phone req)), l_ip = req_ip req,
              l_fingerprint = Some (orElse (body_fingerprint req) ''unknown''),
              l_userAgent = None, l_success = False, l_reason = Some Wrong_mpin,
              l_riskScore = Some (score (calculateRiskScore e (ledger s)
                (sanitize (str (body_phone req))) (req_ip req)
                (orElse (body_fingerprint req) ''unknown'')))\<rparr> (ledger s)"
  using assms
  by (simp_all add: login_def Let_def save_def called_def logged_def
      incrementFailedAttempts_def)

lemma login_success:
  assumes "\<not> falsy (body_phone req)" and "\<not> falsy (body_encryptedMpin req)"
    and "users s (sanitize (str (body_phone req))) = Some u"
    and "\<not> isLocked e u"
    and "action (calculateRiskScore e (ledger s) (sanitize (str (body_phone req)))
           (req_ip req) (orElse (body_fingerprint req) ''unknown'')) \<noteq> Block"
    and "rsaDecrypt e (str (body_encryptedMpin req)) = Inr rawMpin"
    and "verifyMpin e rawMpin (mpinHash u) (mpinSalt u) = Inr True"
  shows "\<exists>tok sc fl. fst (login e req s)
           = LoginOk tok (toJSON (bindDevice e req (resetFailedAttempts e u))) sc fl"
    and "ledger (snd (login e req s)) =
           logLoginAttempt e
             \<lparr>l_phone = sanitize (str (body_phone req)), l_ip = req_ip req,
              l_fingerprint = Some (orElse (body_fingerprint req) ''unknown''),
              l_userAgent = None, l_success = True, l_reason = Some Success,
              l_riskScore = Some (score (calculateRiskScore e (ledger s)
                (sanitize (str (body_phone req))) (req_ip req)
                (orElse (body_fingerprint req) ''unknown'')))\<rparr> (ledger s)"
  using assms
  by (simp_all add: login_def Let_def save_def called_def logged_def)

lemma login_risk_blocked:
  assumes "\<not> falsy (body_phone req)" and "\<not> falsy (body_encryptedMpin req)"
    and "users s (sanitize (str (body_phone req))) = Some u"
    and "\<not> isLocked e u"
    and "action (calculateRiskScore e (ledger s) (sanitize (str (body_phone req)))
           (req_ip req) (orElse (body_fingerprint req) ''unknown'')) = Block"
  shows "\<exists>fl. fst (login e req s) = RiskBlocked fl"
    and "ledger (snd (login e req s)) =
           logLoginAttempt e
             \<lparr>l_phone = sanitize (str (body_phone req)), l_ip = req_ip req,
              l_fingerprint = Some (orElse (body_fingerprint req) ''unknown''),
              l_userAgent = None, l_success = False, l_reason = Some Fraud_detected,
              l_riskScore = Some (score (calculateRiskScore e (ledger s)
                (sanitize (str (body_phone req))) (req_ip req)
                (orElse (body_fingerprint req) ''unknown'')))\<rparr> (ledger s)"
    and "calls (snd (login e req s)) = calls s @ [RiskScorer]"
  using assms
  by (simp_all add: login_def Let_def called_def logged_def)

text \<open>
  Claim C4, as the code has it.  A login for an identity whose lock expiry is in the
  future answers \<open>AccountLocked\<close> with that expiry, makes no call to the risk scorer,
  the decryptor or the hash verifier, and leaves the identity store unchanged.  It
  hands one failed attempt with reason \<open>account_locked\<close> to the ledger: when the
  insert is accepted (the phone and the IP address are not empty and the store takes
  the write) exactly that record is appended, and when the insert is rejected the
  ledger is unchanged and the answer is the same.
\<close>

theorem login_locked_short_circuits:
  assumes "\<not> falsy (body_phone req)" and "\<not> falsy (body_encryptedMpin req)"
    and "users s (sanitize (str (body_phone req))) = Some u"
    and "lockedUntil u = Some until" and "now e < until"
  shows "fst (login e req s) = AccountLocked (Some until)
     \<and> calls (snd (login e req s)) = calls s
     \<and> users (snd (login e req s)) = users s
     \<and> (sanitize (str (body_phone req)) \<noteq> [] \<and> req_ip req \<noteq> [] \<and> \<not> ledgerWriteFails e \<longrightarrow>
          ledger (snd (login e req s)) = ledger s @
            [\<lparr>a_phone = sanitize (str (body_phone req)), a_ip = req_ip req,
              a_fingerprint = orElse (body_fingerprint req) ''unknown'', a_userAgent = [],
              a_success = False, a_reason = Account_locked, a_riskScore = 0,
              a_timestamp = now e\<rparr>])
     \<and> (sanitize (str (body_phone req)) = [] \<or> req_ip req = [] \<or> ledgerWriteFails e \<longrightarrow>
          ledger (snd (login e req s)) = ledger s)"
proof -
  let ?d = "\<lparr>l_phone = sanitize (str (body_phone req)), l_ip = req_ip req,
             l_fingerprint = Some (orElse (body_fingerprint req) ''unknown''),
             l_userAgent = None, l_success = False, l_reason = Some Account_locked,
             l_riskScore = None\<rparr>"
  from assms have r: "login e req s = (AccountLocked (Some until), logged e ?d s)"
    by (simp add: login_def Let_def isLocked_def)
  have doc: "attemptDocument e ?d =
      \<lparr>a_phone = sanitize (str (body_phone req)), a_ip = req_ip req,
       a_fingerprint = orElse (body_fingerprint req) ''unknown'', a_userAgent = [],
       a_success = False, a_reason = Account_locked, a_riskScore = 0,
       a_timestamp = now e\<rparr>"
    by (simp add: attemptDocument_def orElse_again orElseNum_def) (simp add: orElse_def)
  have acc: "sanitize (str (body_phone req)) \<noteq> [] \<and> req_ip req \<noteq> [] \<and> \<not> ledgerWriteFails e
      \<Longrightarrow> logLoginAttempt e ?d (ledger s) = ledger s @ [attemptDocument e ?d]"
    by (rule logLoginAttempt_accepted) (simp_all add: orElseNum_def)
  have rej: "sanitize (str (body_phone req)) = [] \<or> req_ip req = [] \<or> ledgerWriteFails e
      \<Longrightarrow> logLoginAttempt e ?d (ledger s) = ledger s"
    by (rule logLoginAttempt_rejected) simp
  show ?thesis
    using acc rej by (simp add: r logged_def doc)
qed

theorem login_locked_short_circuits_witness:
  "\<not> falsy (body_phone (demoRequest ''98765 43210'' ''rsa:1234''))
   \<and> \<not> falsy (body_encryptedMpin (demoRequest ''98765 43210'' ''rsa:1234''))
   \<and> users demoLockedState ''9876543210''
       = Some (demoUser\<lparr>lockedUntil := Some 1700000600000\<rparr>)
   \<and> now demoEnv < 1700000600000
   \<and> req_ip (demoRequest ''98765 43210'' ''rsa:1234'') \<noteq> [] \<and> \<not> ledgerWriteFails demoEnv
   \<and> fst (login demoEnv (demoRequest ''98765 43210'' ''rsa:1234'') demoLockedState)
      = AccountLocked (Some 1700000600000)
   \<and> ledger (snd (login demoEnv (demoRequest ''98765 43210'' ''rsa:1234'') demoLockedState))
      = [\<lparr>a_phone = ''9876543210'', a_ip = ''10.0.0.7'', a_fingerprint = ''fp-1'',
          a_userAgent = [], a_success = False, a_reason = Account_locked,
          a_riskScore = 0, a_timestamp = 1700000000000\<rparr>]
   \<and> calls (snd (login demoEnv (demoRequest ''98765 43210'' ''rsa:1234'') demoLockedState))
      = []
   \<and> ledgerWriteFails (demoEnv\<lparr>ledgerWriteFails := True\<rparr>)
   \<and> fst (login (demoEnv\<lparr>ledgerWriteFails := True\<rparr>)
        (demoRequest ''98765 43210'' ''rsa:1234'') demoLockedState)
      = AccountLocked (Some 1700000600000)
   \<and> ledger (snd (login (demoEnv\<lparr>ledgerWriteFails := True\<rparr>)
        (demoRequest ''98765 43210'' ''rsa:1234'') demoLockedState))
      = []"
proof -
  let ?req = "demoRequest ''98765 43210'' ''rsa:1234''"
  let ?u = "demoUser\<lparr>lockedUntil := Some 1700000600000\<rparr>"
  let ?e = "demoEnv\<lparr>ledgerWriteFails := True\<rparr>"
  have p: "\<not> falsy (body_phone ?req)" and m: "\<not> falsy (body_encryptedMpin ?req)"
    by (simp_all add: demoRequest_def falsy_def)
  have k: "sanitize (str (body_phone ?req)) = ''9876543210''"
    by (simp add: demoRequest_def str_def sanitize_def isDigit_def)
  have f: "users demoLockedState (sanitize (str (body_phone ?req))) = Some ?u"
    by (simp add: k demoLockedState_def)
  have l: "lockedUntil ?u = Some 1700000600000" by simp
  have t: "now demoEnv < 1700000600000" "now ?e < 1700000600000"
    by (simp_all add: demoEnv_def)
  have r: "req_ip ?req = ''10.0.0.7''"
    "orElse (body_fingerprint ?req) ''unknown'' = ''fp-1''"
    by (simp_all add: demoRequest_def orElse_def)
  have n: "now demoEnv = 1700000000000" "\<not> ledgerWriteFails demoEnv"
    by (simp_all add: demoEnv_def)
  have z: "ledger demoLockedState = []" "calls demoLockedState = []"
    by (simp_all add: demoLockedState_def demoState_def)
  from login_locked_short_circuits [OF p m f l t(1)]
    login_locked_short_circuits [OF p m f l t(2)] p m f
  show ?thesis
    by (simp add: k r n z)
qed

theorem login_locked_insert_rejected_counterexample:
  "users demoLockedState
      (sanitize (str (body_phone ((demoRequest ''98765 43210'' ''rsa:1234'')\<lparr>req_ip := []\<rparr>))))
     = Some (demoUser\<lparr>lockedUntil := Some 1700000600000\<rparr>)
   \<and> now demoEnv < 1700000600000
   \<and> fst (login demoEnv ((demoRequest ''98765 43210'' ''rsa:1234'')\<lparr>req_ip := []\<rparr>)
        demoLockedState)
      = AccountLocked (Some 1700000600000)
   \<and> ledger demoLockedState = []
   \<and> ledger (snd (login demoEnv ((demoRequest ''98765 43210'' ''rsa:1234'')\<lparr>req_ip := []\<rparr>)
        demoLockedState))
      = []"
proof -
  let ?b = "demoRequest ''98765 43210'' ''rsa:1234''"
  have p: "\<not> falsy (body_phone ?b)" and m: "\<not> falsy (body_encryptedMpin ?b)"
    by (simp_all add: demoRequest_def falsy_def)
  have k: "sanitize (str (body_phone ?b)) = ''9876543210''"
    by (simp add: demoRequest_def str_def sanitize_def isDigit_def)
  have f: "users demoLockedState ''9876543210''
             = Some (demoUser\<lparr>lockedUntil := Some 1700000600000\<rparr>)"
    by (simp add: demoLockedState_def)
  have t: "now demoEnv < 1700000600000" by (simp add: demoEnv_def)
  have z: "ledger demoLockedState = []" by (simp add: demoLockedState_def demoState_def)
  have "login demoEnv (?b\<lparr>req_ip := []\<rparr>) demoLockedState =
          (AccountLocked (Some 1700000600000),
           logged demoEnv
             \<lparr>l_phone = ''9876543210'', l_ip = [],
              l_fingerprint = Some (orElse (body_fingerprint ?b) ''unknown''),
              l_userAgent = None, l_success = False, l_reason = Some Account_locked,
              l_riskScore = None\<rparr> demoLockedState)"
    using p m t by (simp add: login_def Let_def k f isLocked_def)
  then show ?thesis
    using t by (simp add: k f z logged_def logLoginAttempt_def LoginAttempt_create_def
        LoginAttempt_valid_def attemptDocument_def)
qed

text \<open>
  Claim C1, at the attempt whose failure locks the account.  A login that reaches the
  PIN comparison and fails it with four failures already on record stores the counter
  reset to 0 together with the lock expiry, and answers \<open>WrongCredential\<close> with
  \<open>attemptsRemaining\<close> computed as 5 minus the stored counter, which is 5 and not 0.
\<close>

theorem login_locking_failure_reports_five:
  assumes "\<not> falsy (body_phone req)" and "\<not> falsy (body_encryptedMpin req)"
    and "users s (sanitize (str (body_phone req))) = Some u"
    and "\<not> isLocked e u"
    and "action (calculateRiskScore e (ledger s) (sanitize (str (body_phone req)))
           (req_ip req) (orElse (body_fingerprint req) ''unknown'')) \<noteq> Block"
    and "rsaDecrypt e (str (body_encryptedMpin req)) = Inr rawMpin"
    and "verifyMpin e rawMpin (mpinHash u) (mpinSalt u) = Inr False"
    and "failedAttempts u = 4"
  shows "fst (login e req s) = WrongCredential 5
     \<and> users (snd (login e req s)) (phone u)
         = Some (u\<lparr>failedAttempts := 0, lockedUntil := Some (now e + 30 * 60 * 1000)\<rparr>)"
  using login_wrong_mpin(1,2) [OF assms(1-7)] assms(8)
  by (simp add: incrementFailedAttempts_def)

lemma demo_request:
  "\<not> falsy (body_phone (demoRequest ''98765 43210'' payload))"
  "sanitize (str (body_phone (demoRequest ''98765 43210'' payload))) = ''9876543210''"
  "req_ip (demoRequest ph payload) = ''10.0.0.7''"
  "orElse (body_fingerprint (demoRequest ph payload)) ''unknown'' = ''fp-1''"
  "str (body_encryptedMpin (demoRequest ph payload)) = payload"
  by (simp_all add: demoRequest_def falsy_def str_def sanitize_def isDigit_def orElse_def)

lemma demo_risk_allows:
  "action (calculateRiskScore demoEnv [] ph ip fp) \<noteq> Block"
  by (simp add: calculateRiskScore_def LoginAttempt_find_def flagIf_def Let_def demoEnv_def)

lemma demo_decrypt: "rsaDecrypt demoEnv (''rsa:'' @ pin) = Inr pin"
  by (simp add: rsaDecrypt_def demoEnv_def)

lemma demo_verify:
  "verifyMpin demoEnv ''0000'' (mpinHash demoUser) (mpinSalt demoUser) = Inr False"
  "verifyMpin demoEnv ''1234'' (mpinHash demoUser) (mpinSalt demoUser) = Inr True"
  by (simp_all add: demoUser_def verifyMpin_stored) (simp add: demoEnv_def demoSha_def)

theorem login_locking_failure_reports_five_witness:
  "failedAttempts demoUser = 4
   \<and> verifyMpin demoEnv ''0000'' (mpinHash demoUser) (mpinSalt demoUser) = Inr False
   \<and> fst (login demoEnv (demoRequest ''98765 43210'' ''rsa:0000'') demoState)
       = WrongCredential 5
   \<and> users (snd (login demoEnv (demoRequest ''98765 43210'' ''rsa:0000'') demoState))
        ''9876543210''
       = Some (demoUser\<lparr>failedAttempts := 0, lockedUntil := Some 1700001800000\<rparr>)"
proof -
  let ?req = "demoRequest ''98765 43210'' ''rsa:0000''"
  have m: "\<not> falsy (body_encryptedMpin ?req)" by (simp add: demoRequest_def falsy_def)
  have f: "users demoState (sanitize (str (body_phone ?req))) = Some demoUser"
    by (simp add: demo_request demoState_def)
  have l: "\<not> isLocked demoEnv demoUser" by (simp add: isLocked_def demoUser_def)
  have a: "action (calculateRiskScore demoEnv (ledger demoState)
             (sanitize (str (body_phone ?req))) (req_ip ?req)
             (orElse (body_fingerprint ?req) ''unknown'')) \<noteq> Block"
    by (simp add: demoState_def demo_risk_allows)
  have d: "rsaDecrypt demoEnv (str (body_encryptedMpin ?req)) = Inr ''0000''"
    using demo_decrypt [of "''0000''"] by (simp add: demo_request)
  have c: "failedAttempts demoUser = 4" by (simp add: demoUser_def)
  have ph: "phone demoUser = ''9876543210''" by (simp add: demoUser_def)
  have n: "now demoEnv = 1700000000000" by (simp add: demoEnv_def)
  from login_locking_failure_reports_five [OF demo_request(1) m f l a d demo_verify(1) c]
  show ?thesis by (simp add: c demo_verify(1) ph n)
qed

text \<open>
  Claim C2, at a decryption failure.  When the payload of a login that passed the lock
  check and the risk gate does not decrypt, the handler answers
  \<open>InvalidEncryptedData\<close> and the attempt ledger is left as it was: no attempt record
  is appended.
\<close>

theorem login_decrypt_failure_not_recorded:
  assumes "\<not> falsy (body_phone req)" and "\<not> falsy (body_encryptedMpin req)"
    and "users s (sanitize (str (body_phone req))) = Some u"
    and "\<not> isLocked e u"
    and "action (calculateRiskScore e (ledger s) (sanitize (str (body_phone req)))
           (req_ip req) (orElse (body_fingerprint req) ''unknown'')) \<noteq> Block"
    and "rsaDecrypt e (str (body_encryptedMpin req)) = Inl err"
  shows "fst (login e req s) = InvalidEncryptedData
     \<and> ledger (snd (login e req s)) = ledger s"
  using assms by (simp add: login_def Let_def called_def)

theorem login_decrypt_failure_not_recorded_witness:
  "rsaDecrypt demoEnv ''garbage'' = Inl DecryptionFailed
   \<and> fst (login demoEnv (demoRequest ''98765 43210'' ''garbage'') demoState)
       = InvalidEncryptedData
   \<and> ledger (snd (login demoEnv (demoRequest ''98765 43210'' ''garbage'') demoState)) = []"
proof -
  let ?req = "demoRequest ''98765 43210'' ''garbage''"
  have m: "\<not> falsy (body_encryptedMpin ?req)" by (simp add: demoRequest_def falsy_def)
  have f: "users demoState (sanitize (str (body_phone ?req))) = Some demoUser"
    by (simp add: demo_request demoState_def)
  have l: "\<not> isLocked demoEnv demoUser" by (simp add: isLocked_def demoUser_def)
  have a: "action (calculateRiskScore demoEnv (ledger demoState)
             (sanitize (str (body_phone ?req))) (req_ip ?req)
             (orElse (body_fingerprint ?req) ''unknown'')) \<noteq> Block"
    by (simp add: demoState_def demo_risk_allows)
  have g: "rsaDecrypt demoEnv ''garbage'' = Inl DecryptionFailed"
    by (simp add: rsaDecrypt_def demoEnv_def)
  then have d: "rsaDecrypt demoEnv (str (body_encryptedMpin ?req)) = Inl DecryptionFailed"
    by (simp add: demo_request)
  from login_decrypt_failure_not_recorded [OF demo_request(1) m f l a d] g
  show ?thesis by (simp add: demoState_def)
qed

text \<open>
  Claim C7.  When the ledger query fails, the scorer returns score 10, the single flag
  \<open>detection_error\<close> and action Allow instead of an error; a login for a stored,
  unlocked identity therefore passes the risk gate and goes on to the decryptor.
\<close>

theorem calculateRiskScore_ledger_failure:
  "(ledgerReadFails e \<longrightarrow>
      calculateRiskScore e L ph ip fp
        = \<lparr>score = 10, flags = [Detection_error], action = Allow\<rparr>)
   \<and> (ledgerReadFails e \<and> \<not> falsy (body_phone req) \<and> \<not> falsy (body_encryptedMpin req)
        \<and> users s (sanitize (str (body_phone req))) = Some u \<and> \<not> isLocked e u \<longrightarrow>
      take (length (calls s) + 2) (calls (snd (login e req s)))
        = calls s @ [RiskScorer, Decryptor])"
proof (intro conjI impI)
  assume "ledgerReadFails e"
  then show "calculateRiskScore e L ph ip fp
               = \<lparr>score = 10, flags = [Detection_error], action = Allow\<rparr>"
    by (rule calculateRiskScore_read_failure)
next
  assume a: "ledgerReadFails e \<and> \<not> falsy (body_phone req)
     \<and> \<not> falsy (body_encryptedMpin req)
     \<and> users s (sanitize (str (body_phone req))) = Some u \<and> \<not> isLocked e u"
  then have "action (calculateRiskScore e (ledger s) (sanitize (str (body_phone req)))
               (req_ip req) (orElse (body_fingerprint req) ''unknown'')) = Allow"
    by (simp add: calculateRiskScore_read_failure)
  with a show "take (length (calls s) + 2) (calls (snd (login e req s)))
                 = calls s @ [RiskScorer, Decryptor]"
    by (simp add: login_def Let_def called_def logged_def save_def
        split: sum.splits)
qed

theorem calculateRiskScore_ledger_failure_witness:
  "ledgerReadFails (demoEnv\<lparr>ledgerReadFails := True\<rparr>)
   \<and> calculateRiskScore (demoEnv\<lparr>ledgerReadFails := True\<rparr>) [] ''9876543210''
        ''10.0.0.7'' ''fp-1''
       = \<lparr>score = 10, flags = [Detection_error], action = Allow\<rparr>
   \<and> \<not> isLocked (demoEnv\<lparr>ledgerReadFails := True\<rparr>) demoUser
   \<and> take 2 (calls (snd (login (demoEnv\<lparr>ledgerReadFails := True\<rparr>)
         (demoRequest ''98765 43210'' ''rsa:1234'') demoState)))
       = [RiskScorer, Decryptor]"
proof -
  let ?e = "demoEnv\<lparr>ledgerReadFails := True\<rparr>"
  let ?req = "demoRequest ''98765 43210'' ''rsa:1234''"
  have r: "ledgerReadFails ?e" by simp
  have m: "\<not> falsy (body_encryptedMpin ?req)" by (simp add: demoRequest_def falsy_def)
  have f: "users demoState (sanitize (str (body_phone ?req))) = Some demoUser"
    by (simp add: demo_request demoState_def)
  have l: "\<not> isLocked ?e demoUser" by (simp add: isLocked_def demoUser_def)
  have c: "calls demoState = []" by (simp add: demoState_def)
  from calculateRiskScore_ledger_failure
         [of ?e "[]" "''9876543210''" "''10.0.0.7''" "''fp-1''" ?req demoState demoUser]
       r demo_request(1) m f l c
  show ?thesis by (simp add: numeral_2_eq_2)
qed

subsection \<open>Phone numbers\<close>

lemma sanitize_digits_only: "list_all isDigit (sanitize p)"
  by (simp add: sanitize_def list_all_iff)

lemma verifyOtp_rejects_bad_length:
  assumes "\<not> falsy (body_phone req)"
    and "length (sanitize (str (body_phone req))) < 10
         \<or> length (sanitize (str (body_phone req))) > 15"
  shows "verifyOtp e req s = (InvalidPhoneFormat, s)"
  using assms by (auto simp: verifyOtp_def Let_def)

lemma login_unknown_phone:
  assumes "\<not> falsy (body_phone req)" and "\<not> falsy (body_encryptedMpin req)"
    and "users s (sanitize (str (body_phone req))) = None"
  shows "login e req s = (UserNotFound, s)"
  using assms by (simp add: login_def Let_def)

text \<open>
  Claim C5, at a phone number of the wrong length.  The register handler normalises
  the phone to its digits but has no length check: for a phone whose digits number
  fewer than 10 or more than 15 and that is not in the store, it calls the decryptor,
  and the request ends as a decryption error, a PIN-format error or, when both pass,
  as the server error raised by the store's schema validation.
\<close>

theorem register_bad_phone_length_reaches_decryptor:
  assumes "\<not> falsy (body_phone req)" and "\<not> falsy (body_encryptedMpin req)"
    and "length (sanitize (str (body_phone req))) < 10
         \<or> length (sanitize (str (body_phone req))) > 15"
    and "users s (sanitize (str (body_phone req))) = None"
  shows "calls (snd (register e req s)) = calls s @ [Decryptor]
     \<and> fst (register e req s) \<in> {InvalidEncryptedData, InvalidPinFormat, ServerError}
     \<and> (\<forall>rawMpin. rsaDecrypt e (str (body_encryptedMpin req)) = Inr rawMpin
            \<and> validMpinFormat rawMpin \<longrightarrow> fst (register e req s) = ServerError)"
  using assms
  by (auto simp: register_def Let_def called_def User_create_def split: sum.splits)

theorem register_bad_phone_length_reaches_decryptor_witness:
  "length (sanitize (str (body_phone (demoRequest ''123'' ''garbage'')))) < 10
   \<and> register demoEnv (demoRequest ''123'' ''garbage'') demoState
       = (InvalidEncryptedData, demoState\<lparr>calls := [Decryptor]\<rparr>)
   \<and> rsaDecrypt demoEnv (str (body_encryptedMpin (demoRequest ''123'' ''rsa:1234''))) = Inr ''1234''
   \<and> validMpinFormat ''1234''
   \<and> fst (register demoEnv (demoRequest ''123'' ''rsa:1234'') demoState) = ServerError
   \<and> calls (snd (register demoEnv (demoRequest ''123'' ''rsa:1234'') demoState)) = [Decryptor]"
proof -
  have k: "sanitize (str (body_phone (demoRequest ''123'' payload))) = ''123''" for payload
    by (simp add: demoRequest_def str_def sanitize_def isDigit_def)
  have p: "\<not> falsy (body_phone (demoRequest ''123'' payload))"
    and m: "payload \<noteq> [] \<Longrightarrow> \<not> falsy (body_encryptedMpin (demoRequest ''123'' payload))"
    for payload
    by (simp_all add: demoRequest_def falsy_def)
  have b: "length (sanitize (str (body_phone (demoRequest ''123'' payload)))) < 10
         \<or> length (sanitize (str (body_phone (demoRequest ''123'' payload)))) > 15"
    for payload
    by (simp add: k)
  have f: "users demoState (sanitize (str (body_phone (demoRequest ''123'' payload)))) = None"
    for payload
    by (simp add: k demoState_def)
  have g: "rsaDecrypt demoEnv (str (body_encryptedMpin (demoRequest ''123'' ''garbage'')))
             = Inl DecryptionFailed"
    by (simp add: demo_request rsaDecrypt_def demoEnv_def)
  have d: "rsaDecrypt demoEnv (str (body_encryptedMpin (demoRequest ''123'' ''rsa:1234'')))
             = Inr ''1234''"
    using demo_decrypt [of "''1234''"] by (simp add: demo_request)
  have v: "validMpinFormat ''1234''" by (simp add: validMpinFormat_def isDigit_def)
  have e1: "register demoEnv (demoRequest ''123'' ''garbage'') demoState
              = (InvalidEncryptedData, demoState\<lparr>calls := [Decryptor]\<rparr>)"
    using p [of "''garbage''"] m [of "''garbage''"] f [of "''garbage''"] g
    by (simp add: register_def Let_def called_def demoState_def)
  from register_bad_phone_length_reaches_decryptor
         [OF p m b f, of "''rsa:1234''" demoEnv] d v
  have "fst (register demoEnv (demoRequest ''123'' ''rsa:1234'') demoState) = ServerError
     \<and> calls (snd (register demoEnv (demoRequest ''123'' ''rsa:1234'') demoState)) = [Decryptor]"
    by (simp add: demoState_def)
  with e1 d v show ?thesis by (simp add: k)
qed

subsection \<open>Responses\<close>

lemma toJSON_fields:
  "map fst (toJSON u) = [''_id'', ''phone'', ''name'', ''devices'', ''failedAttempts'',
     ''lockedUntil'', ''createdAt'', ''lastLogin'']"
  by (simp add: toJSON_def toObject_def deleteField_def Let_def)

lemma toJSON_hides_credentials:
  "''mpinHash'' \<notin> fst ` set (toJSON u)" "''mpinSalt'' \<notin> fst ` set (toJSON u)"
proof -
  have "fst ` set (toJSON u) = set (map fst (toJSON u))" by simp
  then show "''mpinHash'' \<notin> fst ` set (toJSON u)" "''mpinSalt'' \<notin> fst ` set (toJSON u)"
    unfolding toJSON_fields by simp_all
qed

lemma register_user_object:
  "fst (register e req s) = Registered tok obj \<Longrightarrow> \<exists>u. obj = toJSON u"
  by (auto simp: register_def Let_def split: if_splits option.splits sum.splits prod.splits)

lemma login_user_object:
  "fst (login e req s) = LoginOk tok obj sc fl \<Longrightarrow> \<exists>u. obj = toJSON u"
  by (auto simp: login_def Let_def split: if_splits option.splits sum.splits)

lemma register_success:
  assumes "\<not> falsy (body_phone req)" and "\<not> falsy (body_encryptedMpin req)"
    and "users s (sanitize (str (body_phone req))) = None"
    and "rsaDecrypt e (str (body_encryptedMpin req)) = Inr rawMpin"
    and "validMpinFormat rawMpin"
    and "10 \<le> length (sanitize (str (body_phone req)))"
    and "length (sanitize (str (body_phone req))) \<le> 15"
    and "randomSalt e \<noteq> []"
  shows "fst (register e req s) =
           Registered (generateToken e (freshId e) (sanitize (str (body_phone req))))
             (toJSON \<lparr>u_id = freshId e, phone = sanitize (str (body_phone req)),
                      name = ''SmartBank User'',
                      mpinHash = sha512Hash e rawMpin (randomSalt e),
                      mpinSalt = randomSalt e,
                      devices = (if falsy (body_fingerprint req) then []
                                 else [\<lparr>d_fingerprint = str (body_fingerprint req),
                                        d_userAgent = orElse (header_userAgent req) [],
                                        d_lastUsed = now e, d_trusted = True\<rparr>]),
                      failedAttempts = 0, lockedUntil = None, createdAt = now e,
                      lastLogin = None, u_version = 0\<rparr>)"
  using assms
  by (simp add: register_def Let_def User_create_def generateSalt_def length_sha512Hash
      sanitize_digits_only called_def save_def)

lemma login_success_response:
  assumes "\<not> falsy (body_phone req)" and "\<not> falsy (body_encryptedMpin req)"
    and "users s (sanitize (str (body_phone req))) = Some u"
    and "\<not> isLocked e u"
    and "calculateRiskScore e (ledger s) (sanitize (str (body_phone req)))
           (req_ip req) (orElse (body_fingerprint req) ''unknown'') = ra"
    and "action ra \<noteq> Block"
    and "rsaDecrypt e (str (body_encryptedMpin req)) = Inr rawMpin"
    and "verifyMpin e rawMpin (mpinHash u) (mpinSalt u) = Inr True"
  shows "fst (login e req s) =
           LoginOk (generateToken e (u_id (bindDevice e req (resetFailedAttempts e u)))
                      (sanitize (str (body_phone req))))
             (toJSON (bindDevice e req (resetFailedAttempts e u))) (score ra) (flags ra)"
  using assms by (simp add: login_def Let_def)

text \<open>
  Claim C10.  The user object of every successful register response and of every
  successful login response has no \<open>mpinHash\<close> field and no \<open>mpinSalt\<close> field,
  whatever the stored identity records are.
\<close>

theorem responses_omit_credentials:
  "(fst (register e req s) = Registered tok obj \<longrightarrow>
      ''mpinHash'' \<notin> fst ` set obj \<and> ''mpinSalt'' \<notin> fst ` set obj)
   \<and> (fst (login e' req' s') = LoginOk tok' obj' sc fl \<longrightarrow>
      ''mpinHash'' \<notin> fst ` set obj' \<and> ''mpinSalt'' \<notin> fst ` set obj')"
  using register_user_object [of e req s tok obj]
    login_user_object [of e' req' s' tok' obj' sc fl]
    toJSON_hides_credentials
  by blast

theorem responses_omit_credentials_witness:
  "fst (register demoEnv (demoRequest ''91234 56780'' ''rsa:4321'') demoState)
     = Registered (generateToken demoEnv ''id2'' ''9123456780'')
         (toJSON \<lparr>u_id = ''id2'', phone = ''9123456780'', name = ''SmartBank User'',
                  mpinHash = sha512Hash demoEnv ''4321'' ''5a17'', mpinSalt = ''5a17'',
                  devices = [\<lparr>d_fingerprint = ''fp-1'', d_userAgent = ''Mozilla'',
                              d_lastUsed = 1700000000000, d_trusted = True\<rparr>],
                  failedAttempts = 0, lockedUntil = None, createdAt = 1700000000000,
                  lastLogin = None, u_version = 0\<rparr>)
   \<and> ''mpinHash'' \<notin> fst ` set
         (toJSON \<lparr>u_id = ''id2'', phone = ''9123456780'', name = ''SmartBank User'',
                  mpinHash = sha512Hash demoEnv ''4321'' ''5a17'', mpinSalt = ''5a17'',
                  devices = [\<lparr>d_fingerprint = ''fp-1'', d_userAgent = ''Mozilla'',
                              d_lastUsed = 1700000000000, d_trusted = True\<rparr>],
                  failedAttempts = 0, lockedUntil = None, createdAt = 1700000000000,
                  lastLogin = None, u_version = 0\<rparr>)
   \<and> fst (login demoEnv (demoRequest ''98765 43210'' ''rsa:1234'') demoState)
     = LoginOk (generateToken demoEnv ''id1'' ''9876543210'')
         (toJSON (demoUser\<lparr>devices := [\<lparr>d_fingerprint = ''fp-1'', d_userAgent = ''Mozilla'',
                                          d_lastUsed = 1700000000000, d_trusted = True\<rparr>],
                           failedAttempts := 0, lockedUntil := None,
                           lastLogin := Some 1700000000000\<rparr>))
         15 [First_login, Unusual_hour]
   \<and> ''mpinSalt'' \<notin> fst ` set
         (toJSON (demoUser\<lparr>devices := [\<lparr>d_fingerprint = ''fp-1'', d_userAgent = ''Mozilla'',
                                          d_lastUsed = 1700000000000, d_trusted = True\<rparr>],
                           failedAttempts := 0, lockedUntil := None,
                           lastLogin := Some 1700000000000\<rparr>))"
proof -
  let ?rq = "demoRequest ''91234 56780'' ''rsa:4321''"
  let ?lq = "demoRequest ''98765 43210'' ''rsa:1234''"
  have n: "now demoEnv = 1700000000000" "freshId demoEnv = ''id2''"
    "randomSalt demoEnv = ''5a17''"
    by (simp_all add: demoEnv_def)
  have rk: "sanitize (str (body_phone ?rq)) = ''9123456780''"
    and rp: "\<not> falsy (body_phone ?rq)" and rm: "\<not> falsy (body_encryptedMpin ?rq)"
    and lm: "\<not> falsy (body_encryptedMpin ?lq)"
    and fpr: "\<not> falsy (body_fingerprint (demoRequest ph payload))"
      "str (body_fingerprint (demoRequest ph payload)) = ''fp-1''"
      "orElse (header_userAgent (demoRequest ph payload)) [] = ''Mozilla''"
    for ph payload
    by (simp_all add: demoRequest_def falsy_def str_def sanitize_def isDigit_def orElse_def)
  have rf: "users demoState (sanitize (str (body_phone ?rq))) = None"
    by (simp add: rk demoState_def)
  have rd: "rsaDecrypt demoEnv (str (body_encryptedMpin ?rq)) = Inr ''4321''"
    using demo_decrypt [of "''4321''"] by (simp add: demo_request)
  have rv: "validMpinFormat ''4321''" by (simp add: validMpinFormat_def isDigit_def)
  have reg: "fst (register demoEnv ?rq demoState)
     = Registered (generateToken demoEnv ''id2'' ''9123456780'')
         (toJSON \<lparr>u_id = ''id2'', phone = ''9123456780'', name = ''SmartBank User'',
                  mpinHash = sha512Hash demoEnv ''4321'' ''5a17'', mpinSalt = ''5a17'',
                  devices = [\<lparr>d_fingerprint = ''fp-1'', d_userAgent = ''Mozilla'',
                              d_lastUsed = 1700000000000, d_trusted = True\<rparr>],
                  failedAttempts = 0, lockedUntil = None, createdAt = 1700000000000,
                  lastLogin = None, u_version = 0\<rparr>)"
    using register_success [OF rp rm rf rd rv] by (simp add: rk n fpr)
  have lf: "users demoState (sanitize (str (body_phone ?lq))) = Some demoUser"
    by (simp add: demo_request demoState_def)
  have ll: "\<not> isLocked demoEnv demoUser" by (simp add: isLocked_def demoUser_def)
  have la: "calculateRiskScore demoEnv (ledger demoState)
              (sanitize (str (body_phone ?lq))) (req_ip ?lq)
              (orElse (body_fingerprint ?lq) ''unknown'')
            = \<lparr>score = 15, flags = [First_login, Unusual_hour], action = Allow\<rparr>"
    by (simp add: calculateRiskScore_def LoginAttempt_find_def flagIf_def Let_def
        getHours_def demoEnv_def demoState_def)
  have ld: "rsaDecrypt demoEnv (str (body_encryptedMpin ?lq)) = Inr ''1234''"
    using demo_decrypt [of "''1234''"] by (simp add: demo_request)
  have bd: "bindDevice demoEnv ?lq (resetFailedAttempts demoEnv demoUser)
      = demoUser\<lparr>devices := [\<lparr>d_fingerprint = ''fp-1'', d_userAgent = ''Mozilla'',
                                 d_lastUsed = 1700000000000, d_trusted = True\<rparr>],
                  failedAttempts := 0, lockedUntil := None,
                  lastLogin := Some 1700000000000\<rparr>"
    by (simp add: bindDevice_def resetFailedAttempts_def fpr n Let_def)
      (simp add: demoUser_def fpr n)
  have uid: "u_id demoUser = ''id1''" by (simp add: demoUser_def)
  have lg: "fst (login demoEnv ?lq demoState)
     = LoginOk (generateToken demoEnv ''id1'' ''9876543210'')
         (toJSON (demoUser\<lparr>devices := [\<lparr>d_fingerprint = ''fp-1'', d_userAgent = ''Mozilla'',
                                          d_lastUsed = 1700000000000, d_trusted = True\<rparr>],
                           failedAttempts := 0, lockedUntil := None,
                           lastLogin := Some 1700000000000\<rparr>))
         15 [First_login, Unusual_hour]"
    using login_success_response [OF demo_request(1) lm lf ll la _ ld demo_verify(2)]
    by (simp add: bd demo_request uid)
  from responses_omit_credentials [of demoEnv ?rq demoState _ _ demoEnv ?lq demoState] reg lg
  show ?thesis by simp
qed

end
